theory Spec2Isabelle
  imports Complex_Main "HOL-Library.Option_ord" "HOL-Library.Product_Lexorder"
begin

section \<open>Python and Django values\<close>

text \<open>
  The views of \<^verbatim>\<open>library_app/views.py\<close> run on Django over PostgreSQL (the module
  imports \<^verbatim>\<open>django.contrib.postgres.search\<close>). A table is a list of rows, a view is a
  function of the database (and of the request's parameters) that returns either the
  exception that aborts the request or the rendered context, and a view that writes
  returns the database as well. Decimals are exact rationals. Timestamps
  (\<^verbatim>\<open>borrowed_date\<close>, \<^verbatim>\<open>due_date\<close>, \<^verbatim>\<open>returned_date\<close>) are left out: no view
  below branches on them.
\<close>

datatype exn =
    Http404
  | DoesNotExist
  | MultipleObjectsReturned
  | ValueError
  | TypeError
  | InvalidOperation
  | IntegrityError
  | DataError

subsection \<open>Strings\<close>

text \<open>\<^verbatim>\<open>str.strip()\<close>: the whitespace characters below code point 256.\<close>

definition is_space :: "char \<Rightarrow> bool" where
  "is_space c = (of_char c \<in> {9, 10, 11, 12, 13, 28, 29, 30, 31, 32, 133, 160 :: nat})"

definition strip :: "string \<Rightarrow> string" where
  "strip s = rev (dropWhile is_space (rev (dropWhile is_space s)))"

text \<open>\<^verbatim>\<open>s.split(',')\<close>: the pieces between the commas, empty pieces included.\<close>

fun split_comma :: "string \<Rightarrow> string list" where
  "split_comma [] = [[]]"
| "split_comma (c # cs) =
     (if c = CHR '','' then [] # split_comma cs
      else (case split_comma cs of
              [] \<Rightarrow> [[c]]
            | p # ps \<Rightarrow> (c # p) # ps))"

text \<open>
  PostgreSQL's \<^verbatim>\<open>UPPER\<close>, on the ASCII letters. Django compiles \<^verbatim>\<open>icontains\<close> to
  \<^verbatim>\<open>UPPER(col) LIKE UPPER('%pat%')\<close> with the pattern's wildcards escaped, and
  \<^verbatim>\<open>iexact\<close> to \<^verbatim>\<open>UPPER(col) = UPPER(val)\<close>.
\<close>

definition upper_char :: "char \<Rightarrow> char" where
  "upper_char c =
     (let n = (of_char c :: nat)
      in if 97 \<le> n \<and> n \<le> 122 then char_of (n - 32) else c)"

definition upper :: "string \<Rightarrow> string" where
  "upper s = map upper_char s"

fun startswith :: "string \<Rightarrow> string \<Rightarrow> bool" where
  "startswith s [] = True"
| "startswith [] (p # ps) = False"
| "startswith (c # cs) (p # ps) = (c = p \<and> startswith cs ps)"

fun contains :: "string \<Rightarrow> string \<Rightarrow> bool" where
  "contains [] pat = (pat = [])"
| "contains (c # cs) pat = (startswith (c # cs) pat \<or> contains cs pat)"

definition icontains :: "string \<Rightarrow> string \<Rightarrow> bool" where
  "icontains col pat = contains (upper col) (upper pat)"

definition iexact :: "string \<Rightarrow> string \<Rightarrow> bool" where
  "iexact col val = (upper col = upper val)"

section \<open>The models\<close>

text \<open>
  \<^verbatim>\<open>models.py\<close>. Every model has Django's implicit primary key \<^verbatim>\<open>id\<close>; the
  \<^verbatim>\<open>book_id\<close> of a book is a second integer, the key of the imported CSV, and is
  not unique. A loan's foreign keys are stored as the primary keys of the rows they
  point to: the attribute \<^verbatim>\<open>loan.book_id\<close> is the \<^verbatim>\<open>id\<close> of the book.
\<close>

record user =
  user_pk :: int
  username :: string
  email :: string
  full_name :: string

record book =
  book_pk :: int
  book_id :: int
  title :: string
  authors :: string
  average_rating :: "rat option"
  num_pages :: "int option"
  ratings_count :: int
  publication_date_year :: "int option"
  publication_year :: "int option"
  publisher :: "string option"
  is_available :: bool

record loan =
  loan_pk :: int
  loan_user_id :: int
  loan_book_id :: int
  is_returned :: bool
  user_rating :: "rat option"

record db =
  users :: "user list"
  books :: "book list"
  loans :: "loan list"

section \<open>Queries\<close>

text \<open>
  \<^verbatim>\<open>Model.objects.get(field=value)\<close>: the one matching row, \<^verbatim>\<open>DoesNotExist\<close> when
  there is none, \<^verbatim>\<open>MultipleObjectsReturned\<close> when there are several.
  \<^verbatim>\<open>get_object_or_404\<close> turns the first exception into \<^verbatim>\<open>Http404\<close>.
\<close>

definition get :: "'a list \<Rightarrow> ('a \<Rightarrow> bool) \<Rightarrow> exn + 'a" where
  "get table p =
     (case filter p table of
        [] \<Rightarrow> Inl DoesNotExist
      | [x] \<Rightarrow> Inr x
      | _ \<Rightarrow> Inl MultipleObjectsReturned)"

definition get_object_or_404 :: "'a list \<Rightarrow> ('a \<Rightarrow> bool) \<Rightarrow> exn + 'a" where
  "get_object_or_404 table p =
     (case get table p of
        Inl e \<Rightarrow> if e = DoesNotExist then Inl Http404 else Inl e
      | Inr x \<Rightarrow> Inr x)"

text \<open>\<^verbatim>\<open>select_related('book')\<close>: the loans joined with their books.\<close>

definition loan_book :: "db \<Rightarrow> loan \<Rightarrow> book option" where
  "loan_book d l = find (\<lambda>b. book_pk b = loan_book_id l) (books d)"

definition loaned_books :: "db \<Rightarrow> loan list \<Rightarrow> book list" where
  "loaned_books d ls = List.map_filter (loan_book d) ls"

text \<open>
  \<^verbatim>\<open>Q\<close> objects. The empty \<^verbatim>\<open>Q()\<close> is \<open>None\<close>; \<^verbatim>\<open>|\<close> and \<^verbatim>\<open>&\<close> return the other
  operand when one is empty. A comparison with SQL's NULL is not true, and no condition
  below negates one, so a predicate is two-valued.
\<close>

type_synonym Q = "(book \<Rightarrow> bool) option"

definition Q_or :: "Q \<Rightarrow> Q \<Rightarrow> Q" where
  "Q_or a b =
     (case a of
        None \<Rightarrow> b
      | Some p \<Rightarrow> (case b of None \<Rightarrow> Some p | Some q \<Rightarrow> Some (\<lambda>x. p x \<or> q x)))"

definition Q_and :: "Q \<Rightarrow> Q \<Rightarrow> Q" where
  "Q_and a b =
     (case a of
        None \<Rightarrow> b
      | Some p \<Rightarrow> (case b of None \<Rightarrow> Some p | Some q \<Rightarrow> Some (\<lambda>x. p x \<and> q x)))"

text \<open>
  \<^verbatim>\<open>When(condition, then=Value(v))\<close> refuses the empty \<^verbatim>\<open>Q()\<close>: its constructor
  raises \<^verbatim>\<open>ValueError\<close> ("An empty Q() can't be used as a When() condition").
  \<^verbatim>\<open>Case(when..., default=Value(v))\<close> is the value of the first condition that holds.
\<close>

definition When :: "Q \<Rightarrow> int \<Rightarrow> exn + ((book \<Rightarrow> bool) \<times> int)" where
  "When condition v =
     (case condition of None \<Rightarrow> Inl ValueError | Some p \<Rightarrow> Inr (p, v))"

definition Case :: "((book \<Rightarrow> bool) \<times> int) list \<Rightarrow> int \<Rightarrow> book \<Rightarrow> int" where
  "Case whens dflt b =
     (case find (\<lambda>w. fst w b) whens of None \<Rightarrow> dflt | Some w \<Rightarrow> snd w)"

section \<open>\<^verbatim>\<open>user_recommendations\<close>\<close>

record recommendations_page =
  page_user :: user
  page_books :: "book list"
  user_loans_exist :: bool

text \<open>The user's loans, returned and open (\<^verbatim>\<open>Loan.objects.filter(user=user)\<close>).\<close>

definition user_loans :: "db \<Rightarrow> user \<Rightarrow> loan list" where
  "user_loans d u = filter (\<lambda>l. loan_user_id l = user_pk u) (loans d)"

text \<open>
  The page of a user without loans: the first 20 available books by
  \<^verbatim>\<open>('-average_rating', '-ratings_count')\<close>. PostgreSQL puts NULL first in a
  descending order, as \<open>None\<close> is least in the order on options; rows with equal keys
  keep the order of the table.
\<close>

definition cold_start_books :: "db \<Rightarrow> book list" where
  "cold_start_books d =
     take 20 (sort_key (\<lambda>b. (map_option uminus (average_rating b), - ratings_count b))
       (filter is_available (books d)))"

text \<open>\<^verbatim>\<open>read_book_ids\<close>: the column \<^verbatim>\<open>book_id\<close> of the user's loans.\<close>

definition read_book_ids :: "loan list \<Rightarrow> int list" where
  "read_book_ids ls = map loan_book_id ls"

text \<open>\<^verbatim>\<open>read_authors\<close>: the trimmed pieces of every loaned book's authors, as a set.\<close>

definition read_authors :: "book list \<Rightarrow> string list" where
  "read_authors bs =
     remdups (concat (map (\<lambda>b. if authors b \<noteq> [] then map strip (split_comma (authors b)) else []) bs))"

text \<open>\<^verbatim>\<open>read_publishers\<close>: the publishers of the loaned books, NULL and '' excluded.\<close>

definition read_publishers :: "book list \<Rightarrow> string list" where
  "read_publishers bs =
     remdups (List.map_filter
       (\<lambda>b. case publisher b of None \<Rightarrow> None | Some p \<Rightarrow> if p = [] then None else Some p) bs)"

text \<open>\<^verbatim>\<open>Avg('book__average_rating')\<close>: the mean of the ratings that are not NULL, one
  term per loan; NULL when there is none.\<close>

definition Avg :: "rat list \<Rightarrow> rat option" where
  "Avg rs = (if rs = [] then None else Some (sum_list rs / of_nat (length rs)))"

text \<open>\<^verbatim>\<open>avg_rating = ...['avg'] or Decimal('3.5')\<close>: Python's \<^verbatim>\<open>or\<close> takes the
  right operand when the left one is \<^verbatim>\<open>None\<close> or zero.\<close>

definition avg_rating :: "book list \<Rightarrow> rat" where
  "avg_rating bs =
     (case Avg (List.map_filter average_rating bs) of
        None \<Rightarrow> 7 / 2
      | Some a \<Rightarrow> if a = 0 then 7 / 2 else a)"

definition author_conditions :: "string list \<Rightarrow> Q" where
  "author_conditions as = foldl (\<lambda>q a. Q_or q (Some (\<lambda>b. icontains (authors b) a))) None as"

definition publisher_matches :: "string \<Rightarrow> book \<Rightarrow> bool" where
  "publisher_matches p b = (case publisher b of None \<Rightarrow> False | Some q \<Rightarrow> iexact q p)"

definition publisher_conditions :: "string list \<Rightarrow> Q" where
  "publisher_conditions ps = foldl (\<lambda>q p. Q_or q (Some (publisher_matches p))) None ps"

definition rating_gte :: "rat \<Rightarrow> book \<Rightarrow> bool" where
  "rating_gte x b = (case average_rating b of None \<Rightarrow> False | Some r \<Rightarrow> x \<le> r)"

definition rating_lte :: "rat \<Rightarrow> book \<Rightarrow> bool" where
  "rating_lte x b = (case average_rating b of None \<Rightarrow> False | Some r \<Rightarrow> r \<le> x)"

text \<open>The annotation \<^verbatim>\<open>priority_score\<close>: the four \<^verbatim>\<open>When\<close> are built in the order of
  the source, and the first empty condition aborts the view.\<close>

definition priority_score :: "Q \<Rightarrow> Q \<Rightarrow> rat \<Rightarrow> exn + (book \<Rightarrow> int)" where
  "priority_score ac pc avg =
     (case When (Q_and ac pc) 4 of
        Inl e \<Rightarrow> Inl e
      | Inr w4 \<Rightarrow>
     (case When ac 3 of
        Inl e \<Rightarrow> Inl e
      | Inr w3 \<Rightarrow>
     (case When pc 2 of
        Inl e \<Rightarrow> Inl e
      | Inr w2 \<Rightarrow>
     (case When (Q_and (Some (rating_gte (avg - 1 / 2))) (Some (rating_lte (avg + 1 / 2)))) 1 of
        Inl e \<Rightarrow> Inl e
      | Inr w1 \<Rightarrow> Inr (Case [w4, w3, w2, w1] 0)))))"

text \<open>The annotation \<^verbatim>\<open>popularity = Count('loans')\<close>.\<close>

definition popularity :: "db \<Rightarrow> book \<Rightarrow> int" where
  "popularity d b = int (length (filter (\<lambda>l. loan_book_id l = book_pk b) (loans d)))"

text \<open>The queryset \<^verbatim>\<open>recommendations\<close>: the available books whose \<^verbatim>\<open>book_id\<close> is
  not among \<^verbatim>\<open>read_book_ids\<close>, by
  \<^verbatim>\<open>('-priority_score', '-average_rating', '-popularity', '-publication_year')\<close>.\<close>

definition order_key :: "db \<Rightarrow> (book \<Rightarrow> int) \<Rightarrow> book \<Rightarrow> int \<times> rat option \<times> int \<times> int option" where
  "order_key d score b =
     (- score b, map_option uminus (average_rating b), - popularity d b,
      map_option uminus (publication_year b))"

definition eligible :: "db \<Rightarrow> int list \<Rightarrow> book list" where
  "eligible d ids = filter (\<lambda>b. is_available b \<and> book_id b \<notin> set ids) (books d)"

definition recommendations :: "db \<Rightarrow> int list \<Rightarrow> (book \<Rightarrow> int) \<Rightarrow> book list" where
  "recommendations d ids score = sort_key (order_key d score) (eligible d ids)"

text \<open>\<^verbatim>\<open>recommendations.filter(priority_score__gte=2)\<close>, in the same order.\<close>

definition priority_recommendations :: "db \<Rightarrow> int list \<Rightarrow> (book \<Rightarrow> int) \<Rightarrow> book list" where
  "priority_recommendations d ids score =
     sort_key (order_key d score) (filter (\<lambda>b. 2 \<le> score b) (eligible d ids))"

text \<open>\<^verbatim>\<open>popular_books\<close>: the available books rated 4.0 or more whose \<^verbatim>\<open>book_id\<close> is
  not in \<^verbatim>\<open>all_excluded\<close>, by \<^verbatim>\<open>('-ratings_count', '-average_rating')\<close>, the first 15.\<close>

definition popular_books :: "db \<Rightarrow> int list \<Rightarrow> book list" where
  "popular_books d all_excluded =
     take 15 (sort_key (\<lambda>b. (- ratings_count b, map_option uminus (average_rating b)))
       (filter (\<lambda>b. is_available b \<and> rating_gte 4 b \<and> book_id b \<notin> set all_excluded) (books d)))"

definition final_recommendations :: "db \<Rightarrow> int list \<Rightarrow> (book \<Rightarrow> int) \<Rightarrow> book list" where
  "final_recommendations d ids score =
     (let priority_count = length (filter (\<lambda>b. 2 \<le> score b) (eligible d ids));
          top_recommendations = take 30 (recommendations d ids score)
      in if priority_count < 10 then
           (let priority_recs = take 15 (priority_recommendations d ids score);
                priority_ids = map book_id priority_recs;
                all_excluded = ids @ priority_ids
            in priority_recs @ popular_books d all_excluded)
         else top_recommendations)"

definition user_recommendations :: "db \<Rightarrow> string \<Rightarrow> exn + recommendations_page" where
  "user_recommendations d name =
     (case get_object_or_404 (users d) (\<lambda>u. username u = name) of
        Inl e \<Rightarrow> Inl e
      | Inr u \<Rightarrow>
          (let ls = user_loans d u in
           if ls = [] then
             Inr \<lparr>page_user = u, page_books = cold_start_books d, user_loans_exist = False\<rparr>
           else
             (let ids = read_book_ids ls;
                  bs = loaned_books d ls
              in case priority_score (author_conditions (read_authors bs))
                        (publisher_conditions (read_publishers bs)) (avg_rating bs) of
                   Inl e \<Rightarrow> Inl e
                 | Inr score \<Rightarrow>
                     Inr \<lparr>page_user = u, page_books = final_recommendations d ids score,
                          user_loans_exist = True\<rparr>)))"

section \<open>\<^verbatim>\<open>borrow_book\<close> and \<^verbatim>\<open>return_book\<close>\<close>

datatype http_method = GET | POST









text \<open>The number of loans of a book that are not returned.\<close>

definition open_loans :: "db \<Rightarrow> book \<Rightarrow> nat" where
  "open_loans d b = length (filter (\<lambda>l. loan_book_id l = book_pk b \<and> \<not> is_returned l) (loans d))"




section \<open>The rating thresholds of \<^verbatim>\<open>home\<close> and \<^verbatim>\<open>user_dashboard\<close>\<close>

text \<open>
  \<^verbatim>\<open>Decimal(s)\<close> on a string. Python's numeral syntax is a parameter: \<open>number s\<close>
  is the number \<open>s\<close> denotes, \<open>None\<close> when it denotes none, and then the constructor
  raises \<^verbatim>\<open>decimal.InvalidOperation\<close>, a subclass of \<^verbatim>\<open>ArithmeticError\<close>.
\<close>

definition Decimal :: "(string \<Rightarrow> rat option) \<Rightarrow> string \<Rightarrow> exn + rat" where
  "Decimal number s = (case number s of None \<Rightarrow> Inl InvalidOperation | Some r \<Rightarrow> Inr r)"

text \<open>\<^verbatim>\<open>try: ... except (ValueError, TypeError): pass\<close>: the two exceptions leave the
  value as it was, any other one leaves the view.\<close>

definition except_ValueError_TypeError :: "exn + 'a \<Rightarrow> 'a \<Rightarrow> exn + 'a" where
  "except_ValueError_TypeError r unchanged =
     (case r of
        Inl e \<Rightarrow> if e = ValueError \<or> e = TypeError then Inr unchanged else Inl e
      | Inr x \<Rightarrow> Inr x)"

definition pages_filter :: "string \<Rightarrow> book \<Rightarrow> bool" where
  "pages_filter pages b =
     (if pages = ''short'' then (case num_pages b of None \<Rightarrow> False | Some n \<Rightarrow> n < 200)
      else if pages = ''medium'' then (case num_pages b of None \<Rightarrow> False | Some n \<Rightarrow> 200 \<le> n \<and> n \<le> 400)
      else if pages = ''long'' then (case num_pages b of None \<Rightarrow> False | Some n \<Rightarrow> 400 < n)
      else True)"

definition availability_filter :: "string \<Rightarrow> book \<Rightarrow> bool" where
  "availability_filter availability b =
     (if availability = ''available'' then is_available b
      else if availability = ''borrowed'' then \<not> is_available b
      else True)"

text \<open>
  \<^verbatim>\<open>home(request)\<close>: the books of the page. \<open>rank\<close> is the relevance PostgreSQL's
  full-text search gives a book for the query. Without \<^verbatim>\<open>order_by\<close> the books come
  in the model's ordering \<^verbatim>\<open>-average_rating\<close>.
\<close>

definition home ::
  "(string \<Rightarrow> book \<Rightarrow> rat) \<Rightarrow> (string \<Rightarrow> rat option) \<Rightarrow> db
     \<Rightarrow> string \<Rightarrow> string \<Rightarrow> string \<Rightarrow> string \<Rightarrow> string \<Rightarrow> exn + book list" where
  "home rank number d query selected_publisher min_rating availability pages =
     (let filters_active =
            (\<not> (selected_publisher = [] \<and> min_rating = [] \<and> availability = [] \<and> pages = []));
          books0 =
            (if query \<noteq> [] then
               sort_key (\<lambda>b. - rank query b) (filter (\<lambda>b. 1 / 100 \<le> rank query b) (books d))
             else sort_key (\<lambda>b. map_option uminus (average_rating b)) (books d));
          books1 =
            (if selected_publisher \<noteq> [] then filter (publisher_matches selected_publisher) books0
             else books0)
      in case (if min_rating \<noteq> [] then
                 except_ValueError_TypeError
                   (case Decimal number min_rating of
                      Inl e \<Rightarrow> Inl e
                    | Inr min_rating_decimal \<Rightarrow> Inr (filter (rating_gte min_rating_decimal) books1))
                   books1
               else Inr books1) of
           Inl e \<Rightarrow> Inl e
         | Inr books2 \<Rightarrow>
             (let books3 = filter (pages_filter pages) (filter (availability_filter availability) books2)
              in Inr (if query = [] \<and> \<not> filters_active then
                        take 20 (sort_key (\<lambda>b. map_option uminus (average_rating b))
                                   (filter is_available books3))
                      else take 50 books3)))"

record dashboard_page =
  dashboard_user :: "user option"
  current_loans :: "loan list"
  reading_history :: "loan list"
  total_read :: nat
  average_user_rating :: "rat option"

text \<open>
  \<^verbatim>\<open>user_dashboard(request, username)\<close>, up to \<^verbatim>\<open>average_user_rating\<close>; the
  statistics computed after it (favourite author, publisher and year, pages read) read
  the loans and raise nothing. An unknown user gets the page \<^verbatim>\<open>user_not_found.html\<close>.
\<close>

definition user_dashboard ::
  "(string \<Rightarrow> rat option) \<Rightarrow> db \<Rightarrow> string \<Rightarrow> string option \<Rightarrow> exn + dashboard_page" where
  "user_dashboard number d name rating_filter =
     (case filter (\<lambda>u. username u = name) (users d) of
        [] \<Rightarrow>
          Inr \<lparr>dashboard_user = None, current_loans = [], reading_history = [], total_read = 0,
               average_user_rating = None\<rparr>
      | u # _ \<Rightarrow>
          (let current = filter (\<lambda>l. loan_user_id l = user_pk u \<and> \<not> is_returned l) (loans d);
               history = filter (\<lambda>l. loan_user_id l = user_pk u \<and> is_returned l) (loans d)
           in case (case rating_filter of
                      None \<Rightarrow> Inr history
                    | Some s \<Rightarrow>
                        if s = [] then Inr history
                        else except_ValueError_TypeError
                               (case Decimal number s of
                                  Inl e \<Rightarrow> Inl e
                                | Inr min_rating \<Rightarrow>
                                    Inr (filter (\<lambda>l. case user_rating l of
                                                        None \<Rightarrow> False
                                                      | Some r \<Rightarrow> min_rating \<le> r) history))
                               history) of
                Inl e \<Rightarrow> Inl e
              | Inr h \<Rightarrow>
                  Inr \<lparr>dashboard_user = Some u, current_loans = current, reading_history = h,
                       total_read = length history,
                       average_user_rating = Avg (List.map_filter user_rating h)\<rparr>))"

section \<open>The tiers as the specification words them\<close>

text \<open>
  The tier of a candidate for a profile of known authors, known publishers and an
  average rating: 4 when an author and a publisher match, 3 when an author matches, 2
  when a publisher matches, 1 when the rating lies within half a point of the average,
  0 otherwise. An author matches when a known name occurs in the candidate's authors,
  a publisher when it equals a known one, both without regard to case.
\<close>

definition tier_spec :: "string list \<Rightarrow> string list \<Rightarrow> rat \<Rightarrow> book \<Rightarrow> int" where
  "tier_spec knownAuthors knownPublishers averageEnjoyedRating b =
     (let authorMatch = list_ex (\<lambda>a. icontains (authors b) a) knownAuthors;
          publisherMatch =
            (case publisher b of
               None \<Rightarrow> False
             | Some q \<Rightarrow> list_ex (\<lambda>p. iexact q p) knownPublishers);
          ratingMatch =
            (case average_rating b of
               None \<Rightarrow> False
             | Some r \<Rightarrow> averageEnjoyedRating - 1 / 2 \<le> r \<and> r \<le> averageEnjoyedRating + 1 / 2)
      in if authorMatch \<and> publisherMatch then 4
         else if authorMatch then 3
         else if publisherMatch then 2
         else if ratingMatch then 1
         else 0)"

text \<open>
  The order of two adjacent recommendations: the higher tier first, and within a tier
  the higher rating first, a book without rating before the rated ones.
\<close>

definition tier_then_rating_desc :: "(book \<Rightarrow> int) \<Rightarrow> book \<Rightarrow> book \<Rightarrow> bool" where
  "tier_then_rating_desc score a b =
     (score b < score a
      \<or> (score b = score a
          \<and> (case average_rating a of
                None \<Rightarrow> True
              | Some x \<Rightarrow> (case average_rating b of None \<Rightarrow> False | Some y \<Rightarrow> y \<le> x))))"

section \<open>Example data\<close>

text \<open>Rows with the fields the views read; the other fields get their defaults.\<close>

definition new_book :: "int \<Rightarrow> int \<Rightarrow> string \<Rightarrow> string option \<Rightarrow> rat option \<Rightarrow> bool \<Rightarrow> book" where
  "new_book k i a p r av =
     \<lparr>book_pk = k, book_id = i, title = [], authors = a, average_rating = r, num_pages = None,
      ratings_count = 0, publication_date_year = None, publication_year = None, publisher = p,
      is_available = av\<rparr>"

definition new_user :: "int \<Rightarrow> string \<Rightarrow> user" where
  "new_user k name = \<lparr>user_pk = k, username = name, email = name @ ''@example.com'', full_name = name\<rparr>"

definition new_loan :: "int \<Rightarrow> int \<Rightarrow> int \<Rightarrow> bool \<Rightarrow> loan" where
  "new_loan k u b r = \<lparr>loan_pk = k, loan_user_id = u, loan_book_id = b, is_returned = r, user_rating = None\<rparr>"

text \<open>
  A library where the primary keys and the \<^verbatim>\<open>book_id\<close>s differ: ana has borrowed and
  returned the book with primary key 1, carl holds the one with primary key 5, bob has
  never borrowed.
\<close>

definition library :: db where
  "library =
     \<lparr>users = [new_user 1 ''ana'', new_user 2 ''bob'', new_user 3 ''carl''],
      books = [new_book 1 7 ''Jane Doe'' (Some ''Acme'') (Some 4) True,
               new_book 2 8 ''Jane Doe, John Smith'' (Some ''Acme'') None True,
               new_book 3 9 ''Jane Doe'' (Some ''Other Press'') (Some (9 / 2)) True,
               new_book 4 10 ''Unknown Author'' (Some ''Acme'') (Some 3) True,
               new_book 5 11 ''Someone Else'' None (Some 5) False],
      loans = [new_loan 1 1 1 True, new_loan 2 3 5 False]\<rparr>"

text \<open>A library whose only reader, ana, has returned its first book.\<close>

definition library_of :: "book \<Rightarrow> book list \<Rightarrow> db" where
  "library_of b bs =
     \<lparr>users = [new_user 1 ''ana''], books = b # bs, loans = [new_loan 1 1 (book_pk b) True]\<rparr>"



text \<open>A reader of numerals for the examples: the strings of decimal digits.\<close>

definition digit_of :: "char \<Rightarrow> nat option" where
  "digit_of c =
     (let n = (of_char c :: nat) in if 48 \<le> n \<and> n \<le> 57 then Some (n - 48) else None)"

definition digits_number :: "string \<Rightarrow> rat option" where
  "digits_number s =
     (if s = [] \<or> list_ex (\<lambda>c. digit_of c = None) s then None
      else Some (of_nat (foldl (\<lambda>n c. 10 * n + the (digit_of c)) 0 s)))"

text \<open>
  The order \<^verbatim>\<open>('-average_rating', '-ratings_count')\<close> between two rows: the higher
  rating first, a row without rating before every rated one, and between equal ratings
  the higher count first.
\<close>

definition rating_then_count_desc :: "book \<Rightarrow> book \<Rightarrow> bool" where
  "rating_then_count_desc a b =
     (case average_rating a of
        None \<Rightarrow> (case average_rating b of None \<Rightarrow> ratings_count b \<le> ratings_count a | Some y \<Rightarrow> True)
      | Some x \<Rightarrow> (case average_rating b of
                     None \<Rightarrow> False
                   | Some y \<Rightarrow> y < x \<or> (y = x \<and> ratings_count b \<le> ratings_count a)))"

section \<open>Properties\<close>

subsection \<open>Lookups and the cold start\<close>

lemma When_Inl: "When q v = Inl e \<Longrightarrow> e = ValueError \<and> q = None"
  by (simp add: When_def split: option.splits)

lemma priority_score_Inl: "priority_score ac pc avg = Inl e \<Longrightarrow> e = ValueError"
  by (auto simp: priority_score_def dest: When_Inl split: sum.splits)

lemma get_object_or_404_Http404:
  "(get_object_or_404 table p = Inl Http404) = (filter p table = [])"
  by (simp add: get_object_or_404_def get_def split: list.splits)

lemma filter_unique:
  "distinct (map f xs) \<Longrightarrow> x \<in> set xs \<Longrightarrow> filter (\<lambda>y. f y = f x) xs = [x]"
proof (induction xs)
  case Nil
  then show ?case by simp
next
  case (Cons a xs)
  show ?case
  proof (cases "a = x")
    case True
    have "filter (\<lambda>y. f y = f x) xs = []"
      using Cons.prems(1) True by (auto simp: filter_empty_conv image_iff)
    with True show ?thesis by simp
  next
    case False
    with Cons.prems have "x \<in> set xs" by simp
    moreover have "f a \<noteq> f x" using Cons.prems(1) \<open>x \<in> set xs\<close> by auto
    ultimately show ?thesis using Cons by simp
  qed
qed

lemma get_object_or_404_unique:
  "distinct (map f xs) \<Longrightarrow> x \<in> set xs \<Longrightarrow> get_object_or_404 xs (\<lambda>y. f y = f x) = Inr x"
  by (simp add: get_object_or_404_def get_def filter_unique)

lemma cold_key_le:
  "((map_option uminus (average_rating a), - ratings_count a)
      \<le> (map_option uminus (average_rating b), - ratings_count b))
   = rating_then_count_desc a b"
  by (auto simp: rating_then_count_desc_def less_eq_prod_def split: option.splits)

lemma cold_start_sorted: "sorted_wrt rating_then_count_desc (cold_start_books d)"
proof -
  let ?k = "\<lambda>b. (map_option uminus (average_rating b), - ratings_count b)"
  have "sorted (map ?k (sort_key ?k (filter is_available (books d))))"
    by (rule sorted_sort_key)
  then have "sorted_wrt rating_then_count_desc (sort_key ?k (filter is_available (books d)))"
    unfolding sorted_map cold_key_le .
  then show ?thesis
    unfolding cold_start_books_def by (rule sorted_wrt_take)
qed

lemma cold_start_available: "list_all is_available (cold_start_books d)"
  by (auto simp: cold_start_books_def list_all_iff dest!: in_set_takeD)

lemma cold_start_length: "length (cold_start_books d) = min 20 (length (filter is_available (books d)))"
  by (simp add: cold_start_books_def min.commute)

text \<open>
  C8. \<^verbatim>\<open>user_recommendations\<close> answers \<^verbatim>\<open>Http404\<close> exactly when no user has the
  given name. A user who exists (names are unique) and has no loan gets the cold-start
  page, so an unknown user is never answered with a list of books.
\<close>

theorem unknown_user_not_found:
  "(user_recommendations d name = Inl Http404) = (filter (\<lambda>u. username u = name) (users d) = [])
   \<and> (distinct (map username (users d)) \<and> u \<in> set (users d) \<and> user_loans d u = []
        \<longrightarrow> user_recommendations d (username u)
            = Inr \<lparr>page_user = u, page_books = cold_start_books d, user_loans_exist = False\<rparr>)"
proof -
  have "(user_recommendations d name = Inl Http404)
      = (get_object_or_404 (users d) (\<lambda>u. username u = name) = Inl Http404)"
    by (auto simp: user_recommendations_def Let_def dest: priority_score_Inl split: sum.splits)
  moreover have "user_recommendations d (username u)
            = Inr \<lparr>page_user = u, page_books = cold_start_books d, user_loans_exist = False\<rparr>"
    if "distinct (map username (users d))" "u \<in> set (users d)" "user_loans d u = []"
    using that get_object_or_404_unique [of username "users d" u]
    by (simp add: user_recommendations_def)
  ultimately show ?thesis
    by (simp add: get_object_or_404_Http404)
qed

theorem unknown_user_not_found_witness:
  "user_recommendations library ''eve'' = Inl Http404
   \<and> distinct (map username (users library)) \<and> new_user 2 ''bob'' \<in> set (users library)
   \<and> user_loans library (new_user 2 ''bob'') = []
   \<and> user_recommendations library ''bob''
       = Inr \<lparr>page_user = new_user 2 ''bob'', page_books = cold_start_books library, user_loans_exist = False\<rparr>"
  using unknown_user_not_found [of library "''eve''" "new_user 2 ''bob''"]
  by (simp add: library_def new_user_def user_loans_def new_loan_def)

text \<open>
  C4. For a user without loans the view returns the cold-start page: at most 20 books
  (20, or all the available ones when there are fewer), taken from the table, all
  available, by rating and then by ratings count, both descending, with
  \<^verbatim>\<open>user_loans_exist\<close> false. The page is \<open>cold_start_books\<close> whatever the loans
  and books of the table are: neither the reading profile nor the score is computed.
\<close>

theorem cold_start_page:
  assumes "get_object_or_404 (users d) (\<lambda>u. username u = name) = Inr u"
    and "user_loans d u = []"
  shows "user_recommendations d name
           = Inr \<lparr>page_user = u, page_books = cold_start_books d, user_loans_exist = False\<rparr>
         \<and> length (cold_start_books d) = min 20 (length (filter is_available (books d)))
         \<and> set (cold_start_books d) \<subseteq> set (books d)
         \<and> list_all is_available (cold_start_books d)
         \<and> sorted_wrt rating_then_count_desc (cold_start_books d)"
proof -
  have "user_recommendations d name
           = Inr \<lparr>page_user = u, page_books = cold_start_books d, user_loans_exist = False\<rparr>"
    using assms by (simp add: user_recommendations_def)
  moreover have "set (cold_start_books d) \<subseteq> set (books d)"
    by (auto simp: cold_start_books_def dest!: in_set_takeD)
  ultimately show ?thesis
    by (simp add: cold_start_length cold_start_available cold_start_sorted)
qed

theorem cold_start_page_witness:
  "get_object_or_404 (users library) (\<lambda>u. username u = ''bob'') = Inr (new_user 2 ''bob'')
   \<and> user_loans library (new_user 2 ''bob'') = []
   \<and> user_recommendations library ''bob''
       = Inr \<lparr>page_user = new_user 2 ''bob'', page_books = cold_start_books library, user_loans_exist = False\<rparr>
   \<and> map book_id (cold_start_books library) = [8, 9, 7, 10]"
proof -
  have u: "get_object_or_404 (users library) (\<lambda>u. username u = ''bob'') = Inr (new_user 2 ''bob'')"
    by (simp add: library_def new_user_def get_object_or_404_def get_def)
  have l: "user_loans library (new_user 2 ''bob'') = []"
    by (simp add: library_def new_user_def user_loans_def new_loan_def)
  have b: "map book_id (cold_start_books library) = [8, 9, 7, 10]"
    by code_simp
  show ?thesis
    using cold_start_page [OF u l] u l b by simp
qed

subsection \<open>The average rating of the profile\<close>

lemma Avg_mean: "rs \<noteq> [] \<Longrightarrow> Avg rs = Some (sum_list rs / of_nat (length rs))"
  by (simp add: Avg_def)






subsection \<open>Borrowing and returning\<close>







lemma open_loans_pk: "book_pk x = book_pk y \<Longrightarrow> loans d = loans d' \<Longrightarrow> open_loans d x = open_loans d' y"
  by (simp add: open_loans_def)



















subsection \<open>The tiers\<close>

text \<open>
  The conditions the view builds from the known authors and publishers, and the score:
  for a profile with an author and a publisher the annotation is the tier of the
  specification, for every book; for a profile without author or without publisher
  the view raises.
\<close>

lemma Q_or_fold_Some:
  "foldl (\<lambda>q x. Q_or q (Some (f x))) (Some p) xs = Some (\<lambda>b. p b \<or> list_ex (\<lambda>x. f x b) xs)"
  by (induction xs arbitrary: p) (simp_all add: Q_or_def disj_assoc)

lemma Q_or_fold_None:
  "foldl (\<lambda>q x. Q_or q (Some (f x))) None xs
     = (if xs = [] then None else Some (\<lambda>b. list_ex (\<lambda>x. f x b) xs))"
proof (cases xs)
  case Nil
  then show ?thesis by simp
next
  case (Cons a list)
  have "Q_or None (Some (f a)) = Some (f a)" by (simp add: Q_or_def)
  with Cons show ?thesis by (simp add: Q_or_fold_Some)
qed

lemma author_conditions_eq:
  "author_conditions as
     = (if as = [] then None else Some (\<lambda>b. list_ex (\<lambda>a. icontains (authors b) a) as))"
  unfolding author_conditions_def by (rule Q_or_fold_None)

lemma publisher_conditions_eq:
  "publisher_conditions ps
     = (if ps = [] then None else Some (\<lambda>b. list_ex (\<lambda>p. publisher_matches p b) ps))"
  unfolding publisher_conditions_def by (rule Q_or_fold_None [of publisher_matches])

lemma publisher_matches_ex:
  "list_ex (\<lambda>p. publisher_matches p b) ps
     = (case publisher b of None \<Rightarrow> False | Some q \<Rightarrow> list_ex (\<lambda>p. iexact q p) ps)"
  by (simp add: publisher_matches_def list_ex_iff split: option.splits)

lemma priority_score_tiers:
  assumes "as \<noteq> []" and "ps \<noteq> []"
  shows "priority_score (author_conditions as) (publisher_conditions ps) avg = Inr (tier_spec as ps avg)"
proof -
  have "Case [(\<lambda>b. list_ex (\<lambda>a. icontains (authors b) a) as \<and> list_ex (\<lambda>p. publisher_matches p b) ps, 4),
              (\<lambda>b. list_ex (\<lambda>a. icontains (authors b) a) as, 3),
              (\<lambda>b. list_ex (\<lambda>p. publisher_matches p b) ps, 2),
              (\<lambda>b. rating_gte (avg - 1 / 2) b \<and> rating_lte (avg + 1 / 2) b, 1)] 0 b
        = tier_spec as ps avg b" for b
    by (auto simp: Case_def tier_spec_def Let_def publisher_matches_ex rating_gte_def rating_lte_def
        split: option.splits)
  then have "Case [(\<lambda>b. list_ex (\<lambda>a. icontains (authors b) a) as \<and> list_ex (\<lambda>p. publisher_matches p b) ps, 4),
              (\<lambda>b. list_ex (\<lambda>a. icontains (authors b) a) as, 3),
              (\<lambda>b. list_ex (\<lambda>p. publisher_matches p b) ps, 2),
              (\<lambda>b. rating_gte (avg - 1 / 2) b \<and> rating_lte (avg + 1 / 2) b, 1)] 0
        = tier_spec as ps avg"
    by (rule ext)
  then show ?thesis
    using assms
    by (simp add: priority_score_def author_conditions_eq publisher_conditions_eq When_def Q_and_def)
qed

lemma priority_score_empty:
  "as = [] \<or> ps = [] \<Longrightarrow>
   priority_score (author_conditions as) (publisher_conditions ps) avg = Inl ValueError"
  by (auto simp: priority_score_def author_conditions_eq publisher_conditions_eq When_def Q_and_def)

text \<open>
  C1. The tiers are assigned as the claim words them whenever the profile has a known
  author and a known publisher (\<open>priority_score_tiers\<close>), not for every profile: for
  the profile of one book by Jane Doe without publisher, a candidate by Jane Doe is in
  tier 3 by the rule, and the view raises \<^verbatim>\<open>ValueError\<close> instead of scoring it.
\<close>

theorem tiers_without_publisher:
  "read_authors [new_book 1 1 ''Jane Doe'' None (Some 4) True] = [''Jane Doe'']
   \<and> read_publishers [new_book 1 1 ''Jane Doe'' None (Some 4) True] = []
   \<and> avg_rating [new_book 1 1 ''Jane Doe'' None (Some 4) True] = 4
   \<and> priority_score (author_conditions [''Jane Doe'']) (publisher_conditions []) 4 = Inl ValueError
   \<and> tier_spec [''Jane Doe''] [] 4 (new_book 2 2 ''Jane Doe'' (Some ''Acme'') (Some 4) True) = 3"
proof -
  have "read_authors [new_book 1 1 ''Jane Doe'' None (Some 4) True] = [''Jane Doe'']"
    and "read_publishers [new_book 1 1 ''Jane Doe'' None (Some 4) True] = []"
    and "avg_rating [new_book 1 1 ''Jane Doe'' None (Some 4) True] = 4"
    and "tier_spec [''Jane Doe''] [] 4 (new_book 2 2 ''Jane Doe'' (Some ''Acme'') (Some 4) True) = 3"
    by code_simp+
  moreover have "priority_score (author_conditions [''Jane Doe'']) (publisher_conditions []) 4
      = Inl ValueError"
    by (simp add: priority_score_def author_conditions_def publisher_conditions_def When_def
        Q_and_def Q_or_def)
  ultimately show ?thesis by simp
qed

subsection \<open>The recommendation list\<close>

lemma recommendations_sorted: "sorted (map (order_key d score) (recommendations d ids score))"
  by (simp add: recommendations_def)

lemma order_key_le:
  "order_key d score a \<le> order_key d score b \<Longrightarrow> tier_then_rating_desc score a b"
  by (auto simp: order_key_def tier_then_rating_desc_def less_eq_prod_def less_prod_def
      split: option.splits)

lemma recommendations_tier_order:
  "sorted_wrt (tier_then_rating_desc score) (take n (recommendations d ids score))"
proof -
  have "sorted_wrt (\<lambda>a b. order_key d score a \<le> order_key d score b) (recommendations d ids score)"
    using recommendations_sorted [of d score ids] by (simp add: sorted_map)
  then have "sorted_wrt (tier_then_rating_desc score) (recommendations d ids score)"
    by (rule sorted_wrt_mono_rel [rotated]) (rule order_key_le)
  then show ?thesis by (rule sorted_wrt_take)
qed

lemma priority_recommendations_filter:
  "priority_recommendations d ids score = filter (\<lambda>b. 2 \<le> score b) (recommendations d ids score)"
  by (simp add: priority_recommendations_def recommendations_def filter_sort)

lemma priority_count_length:
  "length (filter (\<lambda>b. 2 \<le> score b) (eligible d ids))
     = length (filter (\<lambda>b. 2 \<le> score b) (recommendations d ids score))"
  by (simp add: recommendations_def filter_sort)

lemma final_recommendations_top:
  assumes "10 \<le> length (filter (\<lambda>b. 2 \<le> score b) (eligible d ids))"
  shows "final_recommendations d ids score = take 30 (recommendations d ids score)"
  using assms by (simp add: final_recommendations_def Let_def)

lemma final_recommendations_sparse:
  assumes "length (filter (\<lambda>b. 2 \<le> score b) (eligible d ids)) < 10"
  shows "final_recommendations d ids score
           = take 15 (filter (\<lambda>b. 2 \<le> score b) (recommendations d ids score))
             @ popular_books d
                 (ids @ map book_id (take 15 (filter (\<lambda>b. 2 \<le> score b) (recommendations d ids score))))"
  using assms by (simp add: final_recommendations_def Let_def priority_recommendations_filter)

lemma popular_books_props:
  "b \<in> set (popular_books d ex) \<Longrightarrow>
     b \<in> set (books d) \<and> is_available b \<and> rating_gte 4 b \<and> book_id b \<notin> set ex"
  by (auto simp: popular_books_def dest!: in_set_takeD)

lemma popular_books_length: "length (popular_books d ex) \<le> 15"
  by (simp add: popular_books_def)

lemma recommendations_props:
  "b \<in> set (recommendations d ids score) \<Longrightarrow>
     b \<in> set (books d) \<and> is_available b \<and> book_id b \<notin> set ids"
  by (auto simp: recommendations_def eligible_def)

lemma final_recommendations_props:
  assumes "b \<in> set (final_recommendations d ids score)"
  shows "b \<in> set (books d) \<and> is_available b \<and> book_id b \<notin> set ids"
proof (cases "length (filter (\<lambda>b. 2 \<le> score b) (eligible d ids)) < 10")
  case True
  from assms final_recommendations_sparse [OF True]
  consider "b \<in> set (take 15 (filter (\<lambda>b. 2 \<le> score b) (recommendations d ids score)))"
    | "b \<in> set (popular_books d
                 (ids @ map book_id (take 15 (filter (\<lambda>b. 2 \<le> score b) (recommendations d ids score)))))"
    by auto
  then show ?thesis
  proof cases
    case 1
    then have "b \<in> set (recommendations d ids score)" by (auto dest!: in_set_takeD)
    then show ?thesis by (rule recommendations_props)
  next
    case 2
    from popular_books_props [OF this] show ?thesis by simp
  qed
next
  case False
  then have "final_recommendations d ids score = take 30 (recommendations d ids score)"
    by (simp add: final_recommendations_top)
  with assms have "b \<in> set (recommendations d ids score)" by (auto dest!: in_set_takeD)
  then show ?thesis by (rule recommendations_props)
qed

lemma final_recommendations_length: "length (final_recommendations d ids score) \<le> 30"
  using popular_books_length [of d]
  by (simp add: final_recommendations_def Let_def add_le_mono [of _ 15 _ 15, simplified])

lemma final_recommendations_distinct:
  assumes "distinct (books d)"
  shows "distinct (final_recommendations d ids score)"
proof (cases "length (filter (\<lambda>b. 2 \<le> score b) (eligible d ids)) < 10")
  case True
  let ?P = "take 15 (filter (\<lambda>b. 2 \<le> score b) (recommendations d ids score))"
  have "distinct (recommendations d ids score)"
    using assms by (simp add: recommendations_def eligible_def)
  then have 1: "distinct ?P" by simp
  have 2: "distinct (popular_books d (ids @ map book_id ?P))"
    using assms by (simp add: popular_books_def)
  have 3: "set ?P \<inter> set (popular_books d (ids @ map book_id ?P)) = {}"
    using popular_books_props [of _ d "ids @ map book_id ?P"] by auto
  from 1 2 3 show ?thesis
    by (simp add: final_recommendations_sparse [OF True])
next
  case False
  have "distinct (recommendations d ids score)"
    using assms by (simp add: recommendations_def eligible_def)
  with False show ?thesis by (simp add: final_recommendations_top)
qed

lemma personalized_page:
  assumes "get_object_or_404 (users d) (\<lambda>u. username u = name) = Inr u"
    and "user_loans d u \<noteq> []"
    and "bs = loaned_books d (user_loans d u)"
    and "read_authors bs \<noteq> []" and "read_publishers bs \<noteq> []"
  shows "user_recommendations d name
           = Inr \<lparr>page_user = u,
                  page_books = final_recommendations d (read_book_ids (user_loans d u))
                                 (tier_spec (read_authors bs) (read_publishers bs) (avg_rating bs)),
                  user_loans_exist = True\<rparr>"
  using assms by (simp add: user_recommendations_def Let_def priority_score_tiers)

lemma personalized_page_error:
  assumes "get_object_or_404 (users d) (\<lambda>u. username u = name) = Inr u"
    and "user_loans d u \<noteq> []"
    and "bs = loaned_books d (user_loans d u)"
    and "read_authors bs = [] \<or> read_publishers bs = []"
  shows "user_recommendations d name = Inl ValueError"
  using assms by (simp add: user_recommendations_def Let_def priority_score_empty)

text \<open>
  C2. With fewer than ten candidates of tier 2 or more the list is the first 15 of them
  followed by the popular books (\<open>final_recommendations_sparse\<close>), whenever the
  candidates are scored. For a reader whose only book has no publisher they are not:
  one candidate is in tier 3 by the rule, and the view raises \<^verbatim>\<open>ValueError\<close>.
\<close>

theorem sparse_page_without_publisher:
  "length (filter (\<lambda>b. 2 \<le> tier_spec [''Jane Doe''] [] 4 b)
     (eligible (library_of (new_book 1 1 ''Jane Doe'' None (Some 4) True)
        [new_book 2 2 ''Jane Doe'' (Some ''Acme'') (Some 4) True]) [1])) = 1
   \<and> user_recommendations
       (library_of (new_book 1 1 ''Jane Doe'' None (Some 4) True)
          [new_book 2 2 ''Jane Doe'' (Some ''Acme'') (Some 4) True]) ''ana''
     = Inl ValueError"
proof -
  let ?d = "library_of (new_book 1 1 ''Jane Doe'' None (Some 4) True)
          [new_book 2 2 ''Jane Doe'' (Some ''Acme'') (Some 4) True]"
  have u: "get_object_or_404 (users ?d) (\<lambda>u. username u = ''ana'') = Inr (new_user 1 ''ana'')"
    by code_simp
  have l: "user_loans ?d (new_user 1 ''ana'') \<noteq> []"
    by code_simp
  have p: "read_authors (loaned_books ?d (user_loans ?d (new_user 1 ''ana''))) = []
        \<or> read_publishers (loaned_books ?d (user_loans ?d (new_user 1 ''ana''))) = []"
    by code_simp
  have "length (filter (\<lambda>b. 2 \<le> tier_spec [''Jane Doe''] [] 4 b) (eligible ?d [1])) = 1"
    by code_simp
  with personalized_page_error [OF u l refl p] show ?thesis by simp
qed

text \<open>
  C3. With ten candidates of tier 2 or more the list is the first 30 recommendations
  (\<open>final_recommendations_top\<close>, in the order of \<open>recommendations_tier_order\<close>),
  whenever the candidates are scored. For a reader whose only book has no publisher,
  eleven candidates are in tier 3 by the rule, and the view raises \<^verbatim>\<open>ValueError\<close>.
\<close>

theorem top_page_without_publisher:
  "length (filter (\<lambda>b. 2 \<le> tier_spec [''Jane Doe''] [] 4 b)
     (eligible (library_of (new_book 1 1 ''Jane Doe'' None (Some 4) True)
        (map (\<lambda>k. new_book k k ''Jane Doe'' (Some ''Acme'') (Some 4) True) [2..12])) [1])) = 11
   \<and> user_recommendations
       (library_of (new_book 1 1 ''Jane Doe'' None (Some 4) True)
          (map (\<lambda>k. new_book k k ''Jane Doe'' (Some ''Acme'') (Some 4) True) [2..12])) ''ana''
     = Inl ValueError"
proof -
  let ?d = "library_of (new_book 1 1 ''Jane Doe'' None (Some 4) True)
          (map (\<lambda>k. new_book k k ''Jane Doe'' (Some ''Acme'') (Some 4) True) [2..12])"
  have u: "get_object_or_404 (users ?d) (\<lambda>u. username u = ''ana'') = Inr (new_user 1 ''ana'')"
    by code_simp
  have l: "user_loans ?d (new_user 1 ''ana'') \<noteq> []"
    by code_simp
  have p: "read_authors (loaned_books ?d (user_loans ?d (new_user 1 ''ana''))) = []
        \<or> read_publishers (loaned_books ?d (user_loans ?d (new_user 1 ''ana''))) = []"
    by code_simp
  have "length (filter (\<lambda>b. 2 \<le> tier_spec [''Jane Doe''] [] 4 b) (eligible ?d [1])) = 11"
    by code_simp
  with personalized_page_error [OF u l refl p] show ?thesis by simp
qed

text \<open>
  C5. Every recommended book is available, and its \<^verbatim>\<open>book_id\<close> is not among
  \<^verbatim>\<open>read_book_ids\<close> (\<open>final_recommendations_props\<close>). But \<^verbatim>\<open>read_book_ids\<close>
  holds the primary keys of the books the user borrowed, not their \<^verbatim>\<open>book_id\<close>s: ana
  has read the book with primary key 1 and \<^verbatim>\<open>book_id\<close> 7, and that book is
  recommended to her.
\<close>

theorem read_book_recommended:
  "map book_id (loaned_books library (user_loans library (new_user 1 ''ana''))) = [7]
   \<and> read_book_ids (user_loans library (new_user 1 ''ana'')) = [1]
   \<and> map_sum id (\<lambda>p. map book_id (page_books p)) (user_recommendations library ''ana'')
       = Inr [8, 7, 9, 10]"
  by code_simp

subsection \<open>The rating thresholds\<close>

lemma home_not_a_number:
  assumes "min_rating \<noteq> []" and "number min_rating = None"
  shows "home rank number d query selected_publisher min_rating availability pages = Inl InvalidOperation"
  using assms by (simp add: home_def Let_def Decimal_def except_ValueError_TypeError_def)

lemma user_dashboard_not_a_number:
  assumes "filter (\<lambda>u. username u = name) (users d) \<noteq> []"
    and "s \<noteq> []" and "number s = None"
  shows "user_dashboard number d name (Some s) = Inl InvalidOperation"
  using assms
  by (simp add: user_dashboard_def Let_def Decimal_def except_ValueError_TypeError_def split: list.splits)

text \<open>
  C7. A threshold that is not a number aborts both views with
  \<^verbatim>\<open>decimal.InvalidOperation\<close>, which \<^verbatim>\<open>except (ValueError, TypeError)\<close> does not
  catch; a threshold that is a number filters.
\<close>

theorem rating_threshold_not_a_number:
  "digits_number ''abc'' = None
   \<and> home (\<lambda>q b. 0) digits_number library [] [] ''abc'' [] [] = Inl InvalidOperation
   \<and> user_dashboard digits_number library ''ana'' (Some ''abc'') = Inl InvalidOperation
   \<and> map_sum id (map book_id) (home (\<lambda>q b. 0) digits_number library [] [] ''4'' [] []) = Inr [11, 9, 7]"
  by code_simp

end
